theory Spec2Isabelle
  imports Main "HOL-Library.Word"
begin

section \<open>JavaScript strings\<close>

text \<open>
  A JavaScript string is a sequence of UTF-16 code units, so the model uses lists of
  16-bit words. \<open>js\<close> embeds an ASCII literal; every other code unit is written as
  a numeral.
\<close>

type_synonym jsstring = "16 word list"

definition js :: "string \<Rightarrow> jsstring" where
  "js s = map of_char s"

definition LF :: "16 word" where
  "LF = 0x0A"

text \<open>
  \<^verbatim>\<open>s.split(sep)\<close> for a one-character separator: the scan keeps the line read so far
  and always returns at least one piece (\<^verbatim>\<open>''.split('\n')\<close> is \<^verbatim>\<open>['']\<close>).
\<close>

fun split_from :: "jsstring \<Rightarrow> 16 word \<Rightarrow> jsstring \<Rightarrow> jsstring list" where
  "split_from cur sep [] = [cur]"
| "split_from cur sep (c # cs) =
     (if c = sep then cur # split_from [] sep cs else split_from (cur @ [c]) sep cs)"

definition js_split :: "jsstring \<Rightarrow> 16 word \<Rightarrow> jsstring list" where
  "js_split s sep = split_from [] sep s"

text \<open>
  The code units that \<^verbatim>\<open>String.prototype.trim\<close> strips: ECMAScript's WhiteSpace
  (TAB, VT, FF, ZWNBSP and the Unicode space separators) and LineTerminator
  (LF, CR, LS, PS).
\<close>

definition isWhiteSpace :: "16 word \<Rightarrow> bool" where
  "isWhiteSpace c =
     (c = 0x09 \<or> c = 0x0A \<or> c = 0x0B \<or> c = 0x0C \<or> c = 0x0D \<or> c = 0x20 \<or> c = 0xA0
      \<or> c = 0x1680 \<or> (0x2000 \<le> c \<and> c \<le> 0x200A) \<or> c = 0x2028 \<or> c = 0x2029
      \<or> c = 0x202F \<or> c = 0x205F \<or> c = 0x3000 \<or> c = 0xFEFF)"

definition js_trim :: "jsstring \<Rightarrow> jsstring" where
  "js_trim s = rev (dropWhile isWhiteSpace (rev (dropWhile isWhiteSpace s)))"

definition js_startsWith :: "jsstring \<Rightarrow> jsstring \<Rightarrow> bool" where
  "js_startsWith s p = (take (length p) s = p)"

definition js_endsWith :: "jsstring \<Rightarrow> jsstring \<Rightarrow> bool" where
  "js_endsWith s p = (length p \<le> length s \<and> drop (length s - length p) s = p)"

text \<open>
  \<^verbatim>\<open>s.replace(pat, rep)\<close> with a string pattern replaces the first occurrence of
  \<open>pat\<close> only and returns \<open>s\<close> unchanged when there is none. The \<^verbatim>\<open>$\<close> sequences
  of a replacement text are not interpreted here: the program only ever passes the empty
  replacement.
\<close>

fun js_replace :: "jsstring \<Rightarrow> jsstring \<Rightarrow> jsstring \<Rightarrow> jsstring" where
  "js_replace [] pat rep = (if pat = [] then rep else [])"
| "js_replace (c # cs) pat rep =
     (if js_startsWith (c # cs) pat then rep @ drop (length pat) (c # cs)
      else c # js_replace cs pat rep)"

definition js_join :: "jsstring list \<Rightarrow> jsstring \<Rightarrow> jsstring" where
  "js_join xs sep = concat (case xs of [] \<Rightarrow> [] | y # ys \<Rightarrow> y # map (\<lambda>x. sep @ x) ys)"

section \<open>The deletion parser (\<^verbatim>\<open>parseDeletedFiles\<close>)\<close>

definition deleting :: jsstring where
  "deleting = js ''deleting ''"

text \<open>One turn of the \<^verbatim>\<open>for (const line of lines)\<close> loop, on the list \<open>files\<close>.\<close>

definition parse_line :: "jsstring list \<Rightarrow> jsstring \<Rightarrow> jsstring list" where
  "parse_line files line =
     (let trimmed = js_trim line
      in if js_startsWith trimmed deleting
         then files @ [js_replace trimmed deleting []]
         else files)"

definition parseDeletedFiles :: "jsstring \<Rightarrow> jsstring list" where
  "parseDeletedFiles output = foldl parse_line [] (js_split output LF)"

text \<open>The lines that the parser classifies as deletion records.\<close>

definition is_deletion_line :: "jsstring \<Rightarrow> bool" where
  "is_deletion_line line = js_startsWith (js_trim line) deleting"

section \<open>Argument vectors (\<^verbatim>\<open>ensureTrailingSlash\<close>, \<^verbatim>\<open>buildRsyncArgs\<close>)\<close>

text \<open>The interface \<^verbatim>\<open>Mapping\<close> of \<^verbatim>\<open>config.ts\<close>.\<close>

record Mapping =
  local :: jsstring
  remote :: jsstring
  excludes :: "jsstring list"

text \<open>
  \<^verbatim>\<open>path.sep\<close> is Node's one-character platform separator (\<^verbatim>\<open>/\<close> or \<^verbatim>\<open>\\<close>); it
  is a parameter \<open>sep\<close> of the model.
\<close>

definition ensureTrailingSlash :: "16 word \<Rightarrow> jsstring \<Rightarrow> jsstring" where
  "ensureTrailingSlash sep p =
     (if js_endsWith p [sep] \<or> js_endsWith p (js ''/'') then p else p @ js ''/'')"

definition buildRsyncArgs :: "jsstring list \<Rightarrow> bool \<Rightarrow> jsstring list" where
  "buildRsyncArgs excls withDelete =
     (let args = [js ''-avzP''];
          args = foldl (\<lambda>args exc. args @ [js ''--exclude'', exc]) args excls;
          args = (if withDelete then args @ [js ''--delete''] else args)
      in args)"

text \<open>The three argument vectors that the callers complete with \<^verbatim>\<open>args.push\<close>.\<close>

definition destination :: "jsstring \<Rightarrow> Mapping \<Rightarrow> jsstring" where
  "destination host mapping = host @ js '':'' @ remote mapping"

definition safeArgs :: "16 word \<Rightarrow> jsstring \<Rightarrow> Mapping \<Rightarrow> jsstring list" where
  "safeArgs sep host mapping =
     buildRsyncArgs (excludes mapping) False
       @ [ensureTrailingSlash sep (local mapping), destination host mapping]"

definition dryRunArgs :: "16 word \<Rightarrow> jsstring \<Rightarrow> Mapping \<Rightarrow> jsstring list" where
  "dryRunArgs sep host mapping =
     buildRsyncArgs (excludes mapping) True
       @ [js ''--dry-run'', ensureTrailingSlash sep (local mapping), destination host mapping]"

definition syncArgs :: "16 word \<Rightarrow> jsstring \<Rightarrow> Mapping \<Rightarrow> jsstring list" where
  "syncArgs sep host mapping =
     buildRsyncArgs (excludes mapping) True
       @ [ensureTrailingSlash sep (local mapping), destination host mapping]"

text \<open>
  The number of separators (the platform's or \<^verbatim>\<open>/\<close>) at the end of a path: the measure
  in which the trailing-separator property is stated.
\<close>

definition trailing_separators :: "16 word \<Rightarrow> jsstring \<Rightarrow> nat" where
  "trailing_separators sep p = length (takeWhile (\<lambda>c. c = sep \<or> c = 0x2F) (rev p))"

section \<open>Session state (\<^verbatim>\<open>SessionState\<close>)\<close>

text \<open>
  The two private maps of the class, and the number of times \<^verbatim>\<open>_onDidChange.fire()\<close>
  has run. The methods \<^verbatim>\<open>get\<close> and \<^verbatim>\<open>set\<close> are \<open>state_get\<close> and \<open>state_set\<close>.
\<close>

record session_state =
  serverChoice :: "jsstring \<rightharpoonup> jsstring"
  passwords :: "jsstring \<rightharpoonup> jsstring"
  changes_fired :: nat

definition new_SessionState :: session_state where
  "new_SessionState = \<lparr>serverChoice = Map.empty, passwords = Map.empty, changes_fired = 0\<rparr>"

definition state_get :: "session_state \<Rightarrow> jsstring \<Rightarrow> jsstring option" where
  "state_get s key = serverChoice s key"

definition state_set :: "session_state \<Rightarrow> jsstring \<Rightarrow> jsstring \<Rightarrow> session_state" where
  "state_set s key value =
     (let current = serverChoice s key
      in if current \<noteq> Some value
         then s\<lparr>serverChoice := (serverChoice s)(key \<mapsto> value),
                changes_fired := changes_fired s + 1\<rparr>
         else s)"

definition resetPasswords :: "session_state \<Rightarrow> session_state" where
  "resetPasswords s = s\<lparr>passwords := Map.empty\<rparr>"

definition getPassword :: "session_state \<Rightarrow> jsstring \<Rightarrow> jsstring option" where
  "getPassword s prompt = passwords s prompt"

definition setPassword :: "session_state \<Rightarrow> jsstring \<Rightarrow> jsstring \<Rightarrow> session_state" where
  "setPassword s prompt password = s\<lparr>passwords := (passwords s)(prompt \<mapsto> password)\<rparr>"

section \<open>Running the external command\<close>

text \<open>
  A promise settles once: it is pending (\<open>None\<close>), or resolved with a value, or rejected
  with an \<^verbatim>\<open>Error\<close>, which the model identifies with its message. \<open>settle\<close> is what
  \<^verbatim>\<open>resolve\<close> and \<^verbatim>\<open>reject\<close> do: nothing once the promise is settled.
\<close>

datatype 'a settled = Resolved 'a | Rejected jsstring

definition settle :: "'a settled option \<Rightarrow> 'a settled \<Rightarrow> 'a settled option" where
  "settle p v = (case p of None \<Rightarrow> Some v | Some old \<Rightarrow> Some old)"

text \<open>
  What the runtime delivers to the handlers that a run registers, in order of arrival:
  data on the two streams, \<^verbatim>\<open>close\<close> with the exit code (\<^verbatim>\<open>null\<close> when a signal ended
  the process), \<^verbatim>\<open>error\<close> (the process could not be spawned or killed), and the
  cancellation event of the token.
\<close>

datatype event =
    StdoutData jsstring
  | StderrData jsstring
  | Close "int option"
  | ProcError jsstring
  | CancelRequested

text \<open>
  What a run does to the outside: \<^verbatim>\<open>cp.spawn('rsync', args, ...)\<close> (tagged with the
  function that spawns: \<open>Capture\<close> for \<^verbatim>\<open>runRsyncCommandWithOutput\<close>, \<open>Live\<close> for
  \<^verbatim>\<open>runRsyncCommand\<close>), \<^verbatim>\<open>proc.kill()\<close>, the output channel and the editor's messages.
  The environment passed to \<^verbatim>\<open>spawn\<close> is not modelled.
\<close>

datatype run_kind = Capture | Live

datatype effect =
    Spawn run_kind "jsstring list"
  | Kill
  | Append jsstring
  | AppendLine jsstring
  | ShowWarningMessage jsstring "jsstring list"
  | ShowInformationMessage jsstring
  | ShowErrorMessage jsstring
  | SetStatusBarMessage jsstring nat

fun is_spawn :: "effect \<Rightarrow> bool" where
  "is_spawn (Spawn k args) = True"
| "is_spawn e = False"

fun is_live_spawn :: "effect \<Rightarrow> bool" where
  "is_live_spawn (Spawn Live args) = True"
| "is_live_spawn e = False"

fun is_confirmation :: "effect \<Rightarrow> bool" where
  "is_confirmation (ShowWarningMessage msg items) = True"
| "is_confirmation e = False"

text \<open>
  Template literals: a non-negative integer in decimal, an exit code
  (\<^verbatim>\<open>number | null\<close>) as \<^verbatim>\<open>${code}\<close> prints it.
\<close>

function show_nat :: "nat \<Rightarrow> jsstring" where
  "show_nat n =
     (if n < 10 then [of_nat (48 + n)] else show_nat (n div 10) @ [of_nat (48 + n mod 10)])"
  by pat_completeness auto
termination
  by (relation "measure id") auto

declare show_nat.simps [simp del]

definition show_code :: "int option \<Rightarrow> jsstring" where
  "show_code code =
     (case code of
        None \<Rightarrow> js ''null''
      | Some i \<Rightarrow> if i < 0 then js ''-'' @ show_nat (nat (- i)) else show_nat (nat i))"

subsection \<open>\<^verbatim>\<open>runRsyncCommandWithOutput\<close>: the capture-only run\<close>

record capture_run =
  c_stdout :: jsstring
  c_stderr :: jsstring
  c_promise :: "jsstring settled option"
  c_effects :: "effect list"

text \<open>
  The handlers, by event. \<open>tok\<close> says whether a token was passed, that is whether the
  cancellation handler is registered.
\<close>

fun capture_on :: "bool \<Rightarrow> capture_run \<Rightarrow> event \<Rightarrow> capture_run" where
  "capture_on tok s CancelRequested =
     (if tok
      then s\<lparr>c_effects := c_effects s @ [Kill],
             c_promise := settle (c_promise s) (Rejected (js ''Operation cancelled''))\<rparr>
      else s)"
| "capture_on tok s (StdoutData d) = s\<lparr>c_stdout := c_stdout s @ d\<rparr>"
| "capture_on tok s (StderrData d) = s\<lparr>c_stderr := c_stderr s @ d\<rparr>"
| "capture_on tok s (Close code) =
     (if code = Some 0
      then s\<lparr>c_promise := settle (c_promise s) (Resolved (c_stdout s))\<rparr>
      else s\<lparr>c_promise := settle (c_promise s)
               (Rejected (if c_stderr s \<noteq> [] then c_stderr s
                          else js ''rsync exited with code '' @ show_code code))\<rparr>)"
| "capture_on tok s (ProcError msg) = s\<lparr>c_promise := settle (c_promise s) (Rejected msg)\<rparr>"

definition runRsyncCommandWithOutput :: "jsstring list \<Rightarrow> bool \<Rightarrow> event list \<Rightarrow> capture_run" where
  "runRsyncCommandWithOutput args tok events =
     foldl (capture_on tok)
       \<lparr>c_stdout = [], c_stderr = [], c_promise = None, c_effects = [Spawn Capture args]\<rparr>
       events"

subsection \<open>\<^verbatim>\<open>runRsyncCommand\<close>: the live run\<close>

record live_run =
  l_promise :: "unit settled option"
  l_effects :: "effect list"

fun live_on :: "bool \<Rightarrow> jsstring \<Rightarrow> live_run \<Rightarrow> event \<Rightarrow> live_run" where
  "live_on tok operationName s CancelRequested =
     (if tok
      then s\<lparr>l_effects := l_effects s
               @ [AppendLine [],
                  AppendLine ([0x2716] @ js '' '' @ operationName @ js '' cancelled by user.''),
                  Kill]\<rparr>
      else s)"
| "live_on tok operationName s (StdoutData d) = s\<lparr>l_effects := l_effects s @ [Append d]\<rparr>"
| "live_on tok operationName s (StderrData d) = s\<lparr>l_effects := l_effects s @ [Append d]\<rparr>"
| "live_on tok operationName s (Close code) =
     (if code = Some 0
      then s\<lparr>l_effects := l_effects s
               @ [AppendLine [],
                  AppendLine ([0x2714] @ js '' '' @ operationName @ js '' completed successfully.''),
                  SetStatusBarMessage (operationName @ js '' completed successfully.'') 5000],
             l_promise := settle (l_promise s) (Resolved ())\<rparr>
      else s\<lparr>l_effects := l_effects s
               @ [AppendLine [],
                  AppendLine ([0x2716] @ js '' '' @ operationName @ js '' failed with code ''
                              @ show_code code @ js ''.''),
                  ShowErrorMessage (operationName @ js '' failed.'')],
             l_promise := settle (l_promise s)
               (Rejected (operationName @ js '' failed with code '' @ show_code code))\<rparr>)"
| "live_on tok operationName s (ProcError msg) =
     s\<lparr>l_effects := l_effects s @ [AppendLine (js ''Error: '' @ msg)],
       l_promise := settle (l_promise s) (Rejected msg)\<rparr>"

definition runRsyncCommand :: "jsstring list \<Rightarrow> jsstring \<Rightarrow> bool \<Rightarrow> event list \<Rightarrow> live_run" where
  "runRsyncCommand args operationName tok events =
     foldl (live_on tok operationName)
       \<lparr>l_promise = None,
        l_effects = [AppendLine (js ''Running: rsync '' @ js_join args (js '' '')),
                     AppendLine [],
                     Spawn Live args]\<rparr>
       events"

text \<open>The payloads of the data events, for stating what a run accumulates.\<close>

fun is_data :: "event \<Rightarrow> bool" where
  "is_data (StdoutData d) = True"
| "is_data (StderrData d) = True"
| "is_data e = False"

fun stdout_of :: "event list \<Rightarrow> jsstring" where
  "stdout_of [] = []"
| "stdout_of (StdoutData d # es) = d @ stdout_of es"
| "stdout_of (e # es) = stdout_of es"

fun stderr_of :: "event list \<Rightarrow> jsstring" where
  "stderr_of [] = []"
| "stderr_of (StderrData d # es) = d @ stderr_of es"
| "stderr_of (e # es) = stderr_of es"

text \<open>What the data events of a list put on the output channel when they are streamed.\<close>

fun streamed :: "event list \<Rightarrow> effect list" where
  "streamed [] = []"
| "streamed (StdoutData d # es) = Append d # streamed es"
| "streamed (StderrData d # es) = Append d # streamed es"
| "streamed (e # es) = streamed es"

section \<open>The two synchronisation flows\<close>

definition rule_line :: jsstring where
  "rule_line = replicate 59 0x2550"

subsection \<open>\<^verbatim>\<open>runSafeSync\<close>\<close>

definition runSafeSync ::
  "16 word \<Rightarrow> jsstring \<Rightarrow> Mapping \<Rightarrow> bool \<Rightarrow> event list \<Rightarrow> unit settled option \<times> effect list" where
  "runSafeSync sep host mapping tok events =
     (let banner =
            [AppendLine [],
             AppendLine rule_line,
             AppendLine (js ''>>> Syncing (Safe Mode): '' @ local mapping @ js '' -> ''
                         @ host @ js '':'' @ remote mapping),
             AppendLine (js ''Files missing locally will NOT be deleted on the server.''),
             AppendLine rule_line];
          run = runRsyncCommand (safeArgs sep host mapping) (js ''Safe sync'') tok events
      in (l_promise run, banner @ l_effects run))"

subsection \<open>\<^verbatim>\<open>runFullSync\<close>\<close>

text \<open>
  Everything that \<^verbatim>\<open>runFullSync\<close> observes of the outside during one call: whether a
  token was passed, what \<^verbatim>\<open>token.isCancellationRequested\<close> reads on entry, the events of
  the two processes, what the modal warning resolves to (\<open>None\<close> is \<^verbatim>\<open>undefined\<close>:
  the dialog was dismissed), and whether the token was cancelled while the dialog was open.
  The dialog is taken to be answered; the two runs may stay pending, and then so does the
  call. Events listed after the one that settles the trial run arrive once the flow has
  moved on.
\<close>

record world =
  token_present :: bool
  cancelled_at_entry :: bool
  trial_events :: "event list"
  confirm_answer :: "jsstring option"
  cancelled_during_confirm :: bool
  real_events :: "event list"

definition full_banner :: "jsstring \<Rightarrow> Mapping \<Rightarrow> effect list" where
  "full_banner host mapping =
     [AppendLine [],
      AppendLine rule_line,
      AppendLine (js ''>>> Full Sync (Full Mode): '' @ local mapping @ js '' -> ''
                  @ host @ js '':'' @ remote mapping),
      AppendLine (js ''Checking for files to delete on remote...''),
      AppendLine rule_line]"

text \<open>The warning lines of the output channel and the modal confirmation request.\<close>

definition deletion_notice :: "jsstring list \<Rightarrow> effect list" where
  "deletion_notice filesToDelete =
     [AppendLine [],
      AppendLine ([0x26A0, 0xFE0F]
                  @ js ''  WARNING! The following files will be DELETED on the server:'')]
     @ map (\<lambda>f. AppendLine (js ''  - '' @ f)) filesToDelete
     @ [AppendLine [],
        AppendLine (js ''Total files to delete: '' @ show_nat (length filesToDelete)),
        ShowWarningMessage
          (show_nat (length filesToDelete)
           @ js '' file(s) will be DELETED on the server. (See WWSync output for details)''
           @ [LF] @ js ''Continue?'')
          [js ''Yes, delete'']]"

text \<open>
  What \<^verbatim>\<open>token.isCancellationRequested\<close> reads at the second check, before the real
  run. The token sets its flag and calls its listeners in one step, so a cancellation that
  arrives while the trial run is alive rejects the trial promise; and the flow awaits
  nothing between the resolution of that promise and the second check except the modal
  dialog. Past a resolved trial run the flag is therefore set exactly when the dialog was
  awaited (\<open>asked\<close>) and the token was cancelled while it was open.
\<close>

definition second_check :: "world \<Rightarrow> bool \<Rightarrow> bool" where
  "second_check w asked = (token_present w \<and> asked \<and> cancelled_during_confirm w)"

text \<open>
  The body of the \<^verbatim>\<open>try\<close> block from the second cancellation check on: the real run.
  \<open>log\<close> is what has been done so far. A rejection passes through the \<^verbatim>\<open>catch\<close>
  block, which logs the message and throws the same error again.

  The cancellation handler of the trial run stays registered on the token. When the token
  fires during the real run it calls \<^verbatim>\<open>kill\<close> on the trial process, which has exited,
  and \<^verbatim>\<open>reject\<close> on the settled promise: neither does anything, and the real run's
  effects leave them out.
\<close>

definition real_step ::
  "16 word \<Rightarrow> jsstring \<Rightarrow> Mapping \<Rightarrow> world \<Rightarrow> bool \<Rightarrow> effect list
     \<Rightarrow> unit settled option \<times> effect list" where
  "real_step sep host mapping w asked log =
     (if second_check w asked then (Some (Resolved ()), log)
      else
        let run = runRsyncCommand (syncArgs sep host mapping) (js ''Full sync'')
                    (token_present w) (real_events w)
        in case l_promise run of
             None \<Rightarrow> (None, log @ l_effects run)
           | Some (Resolved u) \<Rightarrow> (Some (Resolved ()), log @ l_effects run)
           | Some (Rejected msg) \<Rightarrow>
               (Some (Rejected msg), log @ l_effects run @ [AppendLine (js ''Error: '' @ msg)]))"

definition runFullSync ::
  "16 word \<Rightarrow> jsstring \<Rightarrow> Mapping \<Rightarrow> world \<Rightarrow> unit settled option \<times> effect list" where
  "runFullSync sep host mapping w =
     (if token_present w \<and> cancelled_at_entry w
      then (Some (Resolved ()), full_banner host mapping)
      else
        let trial = runRsyncCommandWithOutput (dryRunArgs sep host mapping)
                      (token_present w) (trial_events w);
            log = full_banner host mapping @ c_effects trial
        in case c_promise trial of
             None \<Rightarrow> (None, log)
           | Some (Rejected msg) \<Rightarrow> (Some (Rejected msg), log @ [AppendLine (js ''Error: '' @ msg)])
           | Some (Resolved dryRunOutput) \<Rightarrow>
               let filesToDelete = parseDeletedFiles dryRunOutput
               in if length filesToDelete > 0
                  then
                    if confirm_answer w \<noteq> Some (js ''Yes, delete'')
                    then (Some (Resolved ()),
                          log @ deletion_notice filesToDelete
                            @ [AppendLine (js ''Operation cancelled.''),
                               ShowInformationMessage (js ''Full sync cancelled.'')])
                    else real_step sep host mapping w True (log @ deletion_notice filesToDelete)
                  else real_step sep host mapping w False
                         (log @ [AppendLine ([0x2714] @ js '' No files need to be deleted.'')]))"

text \<open>
  The deletion list that the trial run reported: defined when the trial run was started
  and its promise resolved with the captured output.
\<close>

definition trial_deletions :: "16 word \<Rightarrow> jsstring \<Rightarrow> Mapping \<Rightarrow> world \<Rightarrow> jsstring list option" where
  "trial_deletions sep host mapping w =
     (if token_present w \<and> cancelled_at_entry w then None
      else
        case c_promise (runRsyncCommandWithOutput (dryRunArgs sep host mapping)
                          (token_present w) (trial_events w)) of
          Some (Resolved dryRunOutput) \<Rightarrow> Some (parseDeletedFiles dryRunOutput)
        | Some (Rejected msg) \<Rightarrow> None
        | None \<Rightarrow> None)"

section \<open>Example inputs\<close>

text \<open>The target of the specification's end-to-end scenarios, and some runs of the mirror flow.\<close>

definition example_host :: jsstring where
  "example_host = js ''user@10.0.0.5''"

definition example_mapping :: Mapping where
  "example_mapping =
     \<lparr>local = js ''/proj'', remote = js ''/var/www/proj'',
      excludes = [js ''.git'', js ''node_modules'']\<rparr>"

text \<open>One deletion reported, the user answers \<^verbatim>\<open>Yes, delete\<close>, both runs exit with 0.\<close>

definition w_confirmed :: world where
  "w_confirmed =
     \<lparr>token_present = True, cancelled_at_entry = False,
      trial_events = [StdoutData (js ''deleting old/file.txt'' @ [LF]
                        @ js ''sent 120 bytes  received 35 bytes'' @ [LF]), Close (Some 0)],
      confirm_answer = Some (js ''Yes, delete''), cancelled_during_confirm = False,
      real_events = [Close (Some 0)]\<rparr>"

text \<open>The same, with the dialog dismissed.\<close>

definition w_declined :: world where
  "w_declined = w_confirmed\<lparr>confirm_answer := None\<rparr>"

text \<open>No deletion reported.\<close>

definition w_clean :: world where
  "w_clean =
     \<lparr>token_present = True, cancelled_at_entry = False,
      trial_events = [StdoutData (js ''sent 120 bytes  received 35 bytes'' @ [LF]),
                      Close (Some 0)],
      confirm_answer = None, cancelled_during_confirm = False,
      real_events = [Close (Some 0)]\<rparr>"

text \<open>One deletion reported and confirmed, and the token cancelled while the dialog was open.\<close>

definition w_cancelled_in_dialog :: world where
  "w_cancelled_in_dialog = w_confirmed\<lparr>cancelled_during_confirm := True\<rparr>"

text \<open>The trial run exits with code 23; the trial run cannot be spawned.\<close>

definition w_exit23 :: world where
  "w_exit23 =
     w_clean\<lparr>trial_events :=
       [StderrData (js ''rsync error: some files could not be transferred''),
        Close (Some 23)]\<rparr>"

definition w_enoent :: world where
  "w_enoent = w_clean\<lparr>trial_events := [ProcError (js ''spawn rsync ENOENT'')]\<rparr>"

section \<open>Properties of the deletion parser\<close>

lemma split_from_append:
  "split_from cur sep (a @ sep # b) = split_from cur sep a @ split_from [] sep b"
  by (induction a arbitrary: cur) simp_all

lemma split_from_no_sep:
  "sep \<notin> set s \<Longrightarrow> split_from cur sep s = [cur @ s]"
  by (induction s arbitrary: cur) auto

lemma js_split_append:
  "js_split (a @ sep # b) sep = js_split a sep @ js_split b sep"
  by (simp add: js_split_def split_from_append)

lemma js_split_single: "sep \<notin> set s \<Longrightarrow> js_split s sep = [s]"
  by (simp add: js_split_def split_from_no_sep)

lemma js_replace_prefix:
  "js_startsWith t pat \<Longrightarrow> js_replace t pat [] = drop (length pat) t"
  by (cases t) (auto simp: js_startsWith_def)

lemma js_startsWith_append: "js_startsWith (p @ r) p"
  by (simp add: js_startsWith_def)

lemma parse_line_cases:
  "parse_line files line =
     files @ (if is_deletion_line line then [drop (length deleting) (js_trim line)] else [])"
  by (simp add: parse_line_def is_deletion_line_def js_replace_prefix)

lemma foldl_parse_line:
  "foldl parse_line acc ls =
     acc @ map (\<lambda>l. drop (length deleting) (js_trim l)) (filter is_deletion_line ls)"
  by (induction ls arbitrary: acc) (simp_all add: parse_line_cases)

lemma parseDeletedFiles_filter:
  "parseDeletedFiles output =
     map (\<lambda>l. drop (length deleting) (js_trim l)) (filter is_deletion_line (js_split output LF))"
  by (simp add: parseDeletedFiles_def foldl_parse_line)

lemma deleting_length: "length deleting = 9"
  by (simp add: deleting_def js_def)

text \<open>
  Claim C2. For every input, \<open>parseDeletedFiles\<close> returns, in order of appearance, the
  remainder after the prefix \<^verbatim>\<open>deleting \<close> (nine code units) of the trimmed form of
  each line whose trimmed form starts with that prefix, and nothing for any other line.
  The input \<^verbatim>\<open>deleting a/b.txt\<close> yields the single element \<^verbatim>\<open>a/b.txt\<close>, also
  between lines that are not deletion records.
\<close>

theorem parseDeletedFiles_spec:
  "parseDeletedFiles output =
     map (drop 9)
       (filter (\<lambda>t. js_startsWith t (js ''deleting ''))
         (map js_trim (js_split output LF)))
   \<and> parseDeletedFiles (js ''deleting a/b.txt'') = [js ''a/b.txt'']
   \<and> parseDeletedFiles
        (js ''sending incremental file list'' @ [LF] @ js ''deleting a/b.txt'' @ [0x0D, LF]
          @ js ''sent 120 bytes  received 35 bytes'' @ [LF])
       = [js ''a/b.txt'']"
proof -
  have general: "parseDeletedFiles out =
     map (drop 9)
       (filter (\<lambda>t. js_startsWith t (js ''deleting ''))
         (map js_trim (js_split out LF)))" for out
  proof -
    have "is_deletion_line = (\<lambda>l. js_startsWith (js_trim l) (js ''deleting ''))"
      by (simp add: fun_eq_iff is_deletion_line_def deleting_def)
    then show ?thesis
      by (simp add: parseDeletedFiles_filter deleting_length filter_map comp_def)
  qed
  have one: "parseDeletedFiles (js ''deleting a/b.txt'') = [js ''a/b.txt'']"
    unfolding general
    by (simp add: js_def js_split_def LF_def js_trim_def isWhiteSpace_def js_startsWith_def)
  have three: "parseDeletedFiles
        (js ''sending incremental file list'' @ [LF] @ js ''deleting a/b.txt'' @ [0x0D, LF]
          @ js ''sent 120 bytes  received 35 bytes'' @ [LF])
       = [js ''a/b.txt'']"
    unfolding general
    by (simp add: js_def js_split_def LF_def js_trim_def isWhiteSpace_def js_startsWith_def)
  from general one three show ?thesis by blast
qed

text \<open>
  Claim C8. The parser is a function of its input string alone (the model takes no other
  argument and reads no state, as the source does). The result follows the order of
  appearance: the paths of the text before a line break come first, then those of the text
  after it. There is no deduplication: the result has one element for each deletion
  line. It is empty exactly when no line is a deletion record.
\<close>

theorem parseDeletedFiles_order_duplicates:
  "parseDeletedFiles (a @ LF # b) = parseDeletedFiles a @ parseDeletedFiles b
   \<and> length (parseDeletedFiles output)
       = length (filter is_deletion_line (js_split output LF))
   \<and> ((parseDeletedFiles output = [])
        = (\<forall>l \<in> set (js_split output LF). \<not> is_deletion_line l))"
  by (simp add: parseDeletedFiles_filter js_split_append filter_empty_conv)

theorem parseDeletedFiles_order_duplicates_witness:
  "parseDeletedFiles (js ''deleting x'' @ LF # js ''deleting x'') = [js ''x'', js ''x'']
   \<and> length (parseDeletedFiles (js ''deleting x'' @ LF # js ''deleting x'')) = 2
   \<and> parseDeletedFiles (js ''sent 120 bytes'') = []"
proof -
  have x: "parseDeletedFiles (js ''deleting x'') = [js ''x'']"
    by (simp add: parseDeletedFiles_filter js_def js_split_def LF_def js_trim_def
        isWhiteSpace_def js_startsWith_def is_deletion_line_def deleting_def)
  have none: "\<forall>l \<in> set (js_split (js ''sent 120 bytes'') LF). \<not> is_deletion_line l"
    by (simp add: js_def js_split_def LF_def js_trim_def
        isWhiteSpace_def js_startsWith_def is_deletion_line_def deleting_def)
  note split = parseDeletedFiles_order_duplicates
    [of "js ''deleting x''" "js ''deleting x''" "js ''sent 120 bytes''"]
  from split x have two:
    "parseDeletedFiles (js ''deleting x'' @ LF # js ''deleting x'') = [js ''x'', js ''x'']"
    by simp
  from split none have empty: "parseDeletedFiles (js ''sent 120 bytes'') = []"
    by blast
  from two empty show ?thesis by simp
qed

text \<open>
  Claim C9. Only the leading occurrence of \<^verbatim>\<open>deleting \<close> is removed. For every line
  of the input whose trimmed form is the prefix followed by some text \<open>p\<close>, the
  extracted path is all of \<open>p\<close>, whatever \<open>p\<close> contains; when the input is that
  line alone, the result is exactly \<open>[p]\<close>.
\<close>

theorem parseDeletedFiles_leading_only:
  assumes "l \<in> set (js_split output LF)" and "js_trim l = js ''deleting '' @ p"
  shows "p \<in> set (parseDeletedFiles output)
         \<and> (LF \<notin> set output \<longrightarrow> parseDeletedFiles output = [p])"
proof -
  have del: "is_deletion_line l"
    using assms(2) by (simp add: is_deletion_line_def deleting_def js_startsWith_append)
  have path: "drop (length deleting) (js_trim l) = p"
    using assms(2) by (simp add: deleting_def)
  have mem: "p \<in> set (parseDeletedFiles output)"
    unfolding parseDeletedFiles_filter using assms(1) del path by force
  have single: "parseDeletedFiles output = [p]" if "LF \<notin> set output"
  proof -
    from that have sp: "js_split output LF = [output]" by (rule js_split_single)
    with assms(1) have "l = output" by simp
    with sp del path show ?thesis by (simp add: parseDeletedFiles_filter)
  qed
  from mem single show ?thesis by blast
qed

theorem parseDeletedFiles_leading_only_witness:
  "parseDeletedFiles (js ''deleting deleting notes.txt'') = [js ''deleting notes.txt'']"
proof -
  let ?l = "js ''deleting deleting notes.txt''"
  have a: "?l \<in> set (js_split ?l LF)"
    by (simp add: js_def js_split_def LF_def)
  have b: "js_trim ?l = js ''deleting '' @ js ''deleting notes.txt''"
    by (simp add: js_def js_trim_def isWhiteSpace_def)
  have c: "LF \<notin> set ?l"
    by (simp add: js_def LF_def)
  from parseDeletedFiles_leading_only [OF a b] c show ?thesis by blast
qed

section \<open>Properties of the argument vectors\<close>

lemma foldl_exclude:
  "foldl (\<lambda>args exc. args @ [js ''--exclude'', exc]) acc excls =
     acc @ concat (map (\<lambda>e. [js ''--exclude'', e]) excls)"
  by (induction excls arbitrary: acc) simp_all

lemma buildRsyncArgs_eq:
  "buildRsyncArgs excls withDelete =
     js ''-avzP'' # concat (map (\<lambda>e. [js ''--exclude'', e]) excls)
       @ (if withDelete then [js ''--delete''] else [])"
  by (simp add: buildRsyncArgs_def foldl_exclude)

lemma js_endsWith_single:
  "js_endsWith p [c] = (p \<noteq> [] \<and> last p = c)"
proof (cases p rule: rev_cases)
  case Nil then show ?thesis by (simp add: js_endsWith_def)
next
  case (snoc ys y) then show ?thesis by (auto simp add: js_endsWith_def)
qed

lemma trailing_separators_ensure:
  "trailing_separators sep (ensureTrailingSlash sep p) = max 1 (trailing_separators sep p)"
  by (cases p rule: rev_cases)
     (auto simp: trailing_separators_def ensureTrailingSlash_def js_endsWith_single js_def)

text \<open>
  The specification's non-mirror scenario: the vector built for the example target.
\<close>

lemma safeArgs_example:
  "safeArgs 0x2F example_host example_mapping =
     [js ''-avzP'', js ''--exclude'', js ''.git'', js ''--exclude'', js ''node_modules'',
      js ''/proj/'', js ''user@10.0.0.5:/var/www/proj'']"
  by (simp add: safeArgs_def buildRsyncArgs_eq destination_def ensureTrailingSlash_def
      js_endsWith_def example_host_def example_mapping_def js_def)

text \<open>
  Claim C4, as stated, fails: a local root that already ends with two separators is passed
  on unchanged, so the source path of the vector ends with two separators, not one.
\<close>

theorem trailing_separators_counterexample:
  "ensureTrailingSlash 0x2F (js ''/proj//'') = js ''/proj//''
   \<and> trailing_separators 0x2F (ensureTrailingSlash 0x2F (js ''/proj//'')) = 2
   \<and> safeArgs 0x2F (js ''user@10.0.0.5'')
        \<lparr>local = js ''/proj//'', remote = js ''/var/www/proj'', excludes = [js ''.git'']\<rparr>
      = [js ''-avzP'', js ''--exclude'', js ''.git'', js ''/proj//'',
         js ''user@10.0.0.5:/var/www/proj'']"
  by (simp add: trailing_separators_def ensureTrailingSlash_def js_endsWith_def js_def
      safeArgs_def buildRsyncArgs_def destination_def)

text \<open>
  Claim C4, amended. The vector is \<^verbatim>\<open>-avzP\<close>, then one \<^verbatim>\<open>--exclude\<close> directive per
  pattern, each followed by its pattern, in the original order, then \<^verbatim>\<open>--delete\<close>
  exactly in mirror mode (and \<^verbatim>\<open>--dry-run\<close> after it for the trial), then the source
  path, then \<^verbatim>\<open>host:remoteRoot\<close>. The source path is the local root itself when that
  ends with a separator, and the local root with \<^verbatim>\<open>/\<close> appended otherwise: it ends with
  at least one separator, and with exactly one when the local root ended with at most one.
\<close>

theorem argument_vectors:
  "safeArgs sep host m =
     js ''-avzP'' # concat (map (\<lambda>e. [js ''--exclude'', e]) (excludes m))
       @ [ensureTrailingSlash sep (local m), host @ js '':'' @ remote m]
   \<and> dryRunArgs sep host m =
     js ''-avzP'' # concat (map (\<lambda>e. [js ''--exclude'', e]) (excludes m))
       @ [js ''--delete'', js ''--dry-run'',
          ensureTrailingSlash sep (local m), host @ js '':'' @ remote m]
   \<and> syncArgs sep host m =
     js ''-avzP'' # concat (map (\<lambda>e. [js ''--exclude'', e]) (excludes m))
       @ [js ''--delete'', ensureTrailingSlash sep (local m), host @ js '':'' @ remote m]
   \<and> ensureTrailingSlash sep p = (if 0 < trailing_separators sep p then p else p @ js ''/'')
   \<and> trailing_separators sep (ensureTrailingSlash sep p) = max 1 (trailing_separators sep p)"
proof -
  have vectors:
    "safeArgs sep host m =
       js ''-avzP'' # concat (map (\<lambda>e. [js ''--exclude'', e]) (excludes m))
         @ [ensureTrailingSlash sep (local m), host @ js '':'' @ remote m]"
    "dryRunArgs sep host m =
       js ''-avzP'' # concat (map (\<lambda>e. [js ''--exclude'', e]) (excludes m))
         @ [js ''--delete'', js ''--dry-run'',
            ensureTrailingSlash sep (local m), host @ js '':'' @ remote m]"
    "syncArgs sep host m =
       js ''-avzP'' # concat (map (\<lambda>e. [js ''--exclude'', e]) (excludes m))
         @ [js ''--delete'', ensureTrailingSlash sep (local m), host @ js '':'' @ remote m]"
    by (simp_all add: safeArgs_def dryRunArgs_def syncArgs_def buildRsyncArgs_eq destination_def)
  have ends: "(js_endsWith p [sep] \<or> js_endsWith p (js ''/'')) = (0 < trailing_separators sep p)"
    by (cases p rule: rev_cases)
       (auto simp: trailing_separators_def js_endsWith_single js_def)
  then have path:
    "ensureTrailingSlash sep p = (if 0 < trailing_separators sep p then p else p @ js ''/'')"
    by (simp add: ensureTrailingSlash_def)
  from vectors path trailing_separators_ensure show ?thesis by blast
qed

theorem argument_vectors_witness:
  "dryRunArgs 0x2F example_host example_mapping =
     [js ''-avzP'', js ''--exclude'', js ''.git'', js ''--exclude'', js ''node_modules'',
      js ''--delete'', js ''--dry-run'', js ''/proj/'', js ''user@10.0.0.5:/var/www/proj'']
   \<and> trailing_separators 0x2F (ensureTrailingSlash 0x2F (js ''/proj'')) = 1
   \<and> trailing_separators 0x5C (ensureTrailingSlash 0x5C (js ''C:'' @ [0x5C] @ js ''proj'' @ [0x5C])) = 1"
proof -
  let ?win = "js ''C:'' @ [0x5C] @ js ''proj'' @ [0x5C]"
  note posix = argument_vectors [where sep = "0x2F" and host = example_host
      and m = example_mapping and p = "js ''/proj''"]
  note windows = argument_vectors [where sep = "0x5C" and host = example_host
      and m = example_mapping and p = ?win]
  have z: "trailing_separators 0x2F (js ''/proj'') = 0"
    by (simp add: trailing_separators_def js_def)
  have o: "trailing_separators 0x5C ?win = 1"
    by (simp add: trailing_separators_def js_def)
  from posix have "ensureTrailingSlash 0x2F (js ''/proj'')
      = (if 0 < trailing_separators 0x2F (js ''/proj'') then js ''/proj'' else js ''/proj'' @ js ''/'')"
    by blast
  with z have e: "ensureTrailingSlash 0x2F (js ''/proj'') = js ''/proj/''"
    by (simp add: js_def)
  from posix have "dryRunArgs 0x2F example_host example_mapping =
     js ''-avzP'' # concat (map (\<lambda>e. [js ''--exclude'', e]) (excludes example_mapping))
       @ [js ''--delete'', js ''--dry-run'', ensureTrailingSlash 0x2F (local example_mapping),
          example_host @ js '':'' @ remote example_mapping]"
    by blast
  moreover have "local example_mapping = js ''/proj''"
    and "excludes example_mapping = [js ''.git'', js ''node_modules'']"
    and "example_host @ js '':'' @ remote example_mapping = js ''user@10.0.0.5:/var/www/proj''"
    by (simp_all add: example_mapping_def example_host_def js_def)
  ultimately have dry: "dryRunArgs 0x2F example_host example_mapping =
     [js ''-avzP'', js ''--exclude'', js ''.git'', js ''--exclude'', js ''node_modules'',
      js ''--delete'', js ''--dry-run'', js ''/proj/'', js ''user@10.0.0.5:/var/www/proj'']"
    using e by simp
  from posix have "trailing_separators 0x2F (ensureTrailingSlash 0x2F (js ''/proj''))
      = max 1 (trailing_separators 0x2F (js ''/proj''))"
    by blast
  with z have one: "trailing_separators 0x2F (ensureTrailingSlash 0x2F (js ''/proj'')) = 1"
    by simp
  from windows have "trailing_separators 0x5C (ensureTrailingSlash 0x5C ?win)
      = max 1 (trailing_separators 0x5C ?win)"
    by blast
  with o have one': "trailing_separators 0x5C (ensureTrailingSlash 0x5C ?win) = 1"
    by simp
  from dry one one' show ?thesis by blast
qed

section \<open>Properties of the session state\<close>

text \<open>
  Claim C10. \<open>state_set\<close> stores the value and fires the change event once exactly when
  the value differs from the one stored for the key; with the stored value it returns the
  state as it was, so the map is unchanged and no event is fired. Afterwards
  \<open>state_get\<close> returns the value set; other keys and the passwords are untouched.
\<close>

theorem state_set_fires_on_change:
  "state_get (state_set s key value) key = Some value
   \<and> serverChoice (state_set s key value)
       = (if state_get s key = Some value then serverChoice s
          else (serverChoice s)(key \<mapsto> value))
   \<and> changes_fired (state_set s key value)
       = (if state_get s key = Some value then changes_fired s else changes_fired s + 1)
   \<and> (state_get s key = Some value \<longrightarrow> state_set s key value = s)
   \<and> (k \<noteq> key \<longrightarrow> state_get (state_set s key value) k = state_get s k)
   \<and> passwords (state_set s key value) = passwords s"
  by (simp add: state_get_def state_set_def)

theorem state_set_fires_on_change_witness:
  "state_get (state_set new_SessionState (js ''/proj'') (js ''prod'')) (js ''/proj'') = Some (js ''prod'')
  \<and> changes_fired (state_set new_SessionState (js ''/proj'') (js ''prod'')) = 1
  \<and> state_set (state_set new_SessionState (js ''/proj'') (js ''prod'')) (js ''/proj'') (js ''prod'')
     = state_set new_SessionState (js ''/proj'') (js ''prod'')
  \<and> changes_fired (state_set (state_set new_SessionState (js ''/proj'') (js ''prod'')) (js ''/proj'') (js ''prod'')) = 1
  \<and> state_get (state_set (state_set new_SessionState (js ''/proj'') (js ''prod'')) (js ''/proj'') (js ''staging'')) (js ''/proj'') = Some (js ''staging'')
  \<and> changes_fired (state_set (state_set new_SessionState (js ''/proj'') (js ''prod'')) (js ''/proj'') (js ''staging'')) = 2"
proof -
  let ?k = "js ''/proj''" and ?v = "js ''prod''" and ?v' = "js ''staging''"
  let ?s1 = "state_set new_SessionState ?k ?v"
  have empty: "state_get new_SessionState ?k = None"
    by (simp add: state_get_def new_SessionState_def)
  have fired0: "changes_fired new_SessionState = 0"
    by (simp add: new_SessionState_def)
  have neq: "js ''prod'' \<noteq> js ''staging''" by (simp add: js_def)
  note first = state_set_fires_on_change [of new_SessionState ?k ?v ?k]
  note again = state_set_fires_on_change [of ?s1 ?k ?v ?k]
  note other = state_set_fires_on_change [of ?s1 ?k ?v' ?k]
  from first empty fired0 have g1: "state_get ?s1 ?k = Some ?v" and f1: "changes_fired ?s1 = 1"
    by simp_all
  from again g1 have same: "state_set ?s1 ?k ?v = ?s1" by blast
  from other g1 f1 neq have g2: "state_get (state_set ?s1 ?k ?v') ?k = Some ?v'" 
    and f2: "changes_fired (state_set ?s1 ?k ?v') = 2" by simp_all
  from g1 f1 same g2 f2 show ?thesis by simp
qed


section \<open>Properties of a run\<close>

lemma settle_Some [simp]: "settle (Some v) x = Some v"
  by (simp add: settle_def)

lemma settle_None [simp]: "settle None x = Some x"
  by (simp add: settle_def)

lemma capture_settled_stays:
  "c_promise s = Some v \<Longrightarrow> c_promise (foldl (capture_on tok) s es) = Some v"
proof (induction es arbitrary: s)
  case Nil
  then show ?case by simp
next
  case (Cons e es)
  from Cons.prems have "c_promise (capture_on tok s e) = Some v"
    by (cases e) simp_all
  then show ?case using Cons.IH by simp
qed

lemma live_settled_stays:
  "l_promise s = Some v \<Longrightarrow> l_promise (foldl (live_on tok op) s es) = Some v"
proof (induction es arbitrary: s)
  case Nil
  then show ?case by simp
next
  case (Cons e es)
  from Cons.prems have "l_promise (live_on tok op s e) = Some v"
    by (cases e) simp_all
  then show ?case using Cons.IH by simp
qed

lemma capture_data:
  "list_all is_data ds \<Longrightarrow>
   foldl (capture_on tok) s ds
     = s\<lparr>c_stdout := c_stdout s @ stdout_of ds, c_stderr := c_stderr s @ stderr_of ds\<rparr>"
proof (induction ds arbitrary: s)
  case Nil
  then show ?case by simp
next
  case (Cons e ds)
  then show ?case by (cases e) simp_all
qed

lemma live_data_promise:
  "list_all is_data ds \<Longrightarrow> l_promise (foldl (live_on tok op) s ds) = l_promise s"
proof (induction ds arbitrary: s)
  case Nil
  then show ?case by simp
next
  case (Cons e ds)
  then show ?case by (cases e) simp_all
qed

lemma capture_effects_filter:
  "\<not> P Kill \<Longrightarrow> filter P (c_effects (foldl (capture_on tok) s es)) = filter P (c_effects s)"
proof (induction es arbitrary: s)
  case Nil
  then show ?case by simp
next
  case (Cons e es)
  from Cons.prems have "filter P (c_effects (capture_on tok s e)) = filter P (c_effects s)"
    by (cases e) simp_all
  then show ?case using Cons by simp
qed

lemma live_effects_no_confirmation:
  "filter is_confirmation (l_effects (foldl (live_on tok op) s es))
     = filter is_confirmation (l_effects s)"
proof (induction es arbitrary: s)
  case Nil
  then show ?case by simp
next
  case (Cons e es)
  have "filter is_confirmation (l_effects (live_on tok op s e)) = filter is_confirmation (l_effects s)"
    by (cases e) simp_all
  then show ?case using Cons by simp
qed

lemma live_effects_spawns:
  "filter is_spawn (l_effects (foldl (live_on tok op) s es)) = filter is_spawn (l_effects s)"
proof (induction es arbitrary: s)
  case Nil
  then show ?case by simp
next
  case (Cons e es)
  have "filter is_spawn (l_effects (live_on tok op s e)) = filter is_spawn (l_effects s)"
    by (cases e) simp_all
  then show ?case using Cons by simp
qed

lemma capture_spawns:
  "filter is_spawn (c_effects (runRsyncCommandWithOutput args tok es)) = [Spawn Capture args]"
  by (simp add: runRsyncCommandWithOutput_def capture_effects_filter)


lemma capture_no_confirmation:
  "filter is_confirmation (c_effects (runRsyncCommandWithOutput args tok es)) = []"
  by (simp add: runRsyncCommandWithOutput_def capture_effects_filter)

lemma live_spawns:
  "filter is_spawn (l_effects (runRsyncCommand args op tok es)) = [Spawn Live args]"
  by (simp add: runRsyncCommand_def live_effects_spawns)

lemma live_no_confirmation:
  "filter is_confirmation (l_effects (runRsyncCommand args op tok es)) = []"
  by (simp add: runRsyncCommand_def live_effects_no_confirmation)

lemma live_starts_with_spawn:
  "list_ex is_live_spawn (l_effects (runRsyncCommand args op tok es))"
proof -
  have "Spawn Live args \<in> set (filter is_spawn (l_effects (runRsyncCommand args op tok es)))"
    by (simp only: live_spawns list.set insertI1)
  then have "Spawn Live args \<in> set (l_effects (runRsyncCommand args op tok es))"
    by simp
  then show ?thesis
    unfolding list_ex_iff by (rule bexI [rotated]) simp
qed

lemma banner_filters [simp]:
  "filter is_spawn (full_banner host m) = []"
  "filter is_live_spawn (full_banner host m) = []"
  "filter is_confirmation (full_banner host m) = []"
  by (simp_all add: full_banner_def)

lemma notice_filters [simp]:
  "filter is_spawn (deletion_notice fs) = []"
  "filter is_live_spawn (deletion_notice fs) = []"
  by (simp_all add: deletion_notice_def filter_empty_conv)

lemma not_list_ex_filter: "(\<not> list_ex P xs) = (filter P xs = [])"
  by (simp add: list_ex_iff filter_empty_conv)

lemma second_check_not_asked [simp]: "\<not> second_check w False"
  by (simp add: second_check_def)

lemma real_step_cancelled:
  "second_check w asked \<Longrightarrow> real_step sep host m w asked log = (Some (Resolved ()), log)"
  by (simp add: real_step_def)

lemma real_step_runs:
  "\<not> second_check w asked \<Longrightarrow>
   \<exists>tail. snd (real_step sep host m w asked log)
     = log @ l_effects (runRsyncCommand (syncArgs sep host m) (js ''Full sync'')
                          (token_present w) (real_events w)) @ tail
     \<and> filter is_confirmation tail = [] \<and> filter is_spawn tail = []"
  by (auto simp add: real_step_def Let_def split: option.splits settled.splits)

lemma real_step_outcome:
  "\<not> second_check w asked \<Longrightarrow>
   fst (real_step sep host m w asked log)
     = l_promise (runRsyncCommand (syncArgs sep host m) (js ''Full sync'')
                    (token_present w) (real_events w))"
  by (auto simp add: real_step_def Let_def split: option.splits settled.splits)

lemma live_data_effects:
  "list_all is_data ds \<Longrightarrow>
   foldl (live_on tok op) s ds = s\<lparr>l_effects := l_effects s @ streamed ds\<rparr>"
proof (induction ds arbitrary: s)
  case Nil
  then show ?case by simp
next
  case (Cons e ds)
  then show ?case by (cases e) simp_all
qed

lemma capture_effects_grow:
  "set (c_effects s) \<subseteq> set (c_effects (foldl (capture_on tok) s es))"
proof (induction es arbitrary: s)
  case Nil
  then show ?case by simp
next
  case (Cons e es)
  have "set (c_effects s) \<subseteq> set (c_effects (capture_on tok s e))"
    by (cases e) auto
  with Cons.IH [of "capture_on tok s e"] show ?case by auto
qed

lemma capture_cancel_supersedes:
  assumes "list_all is_data ds"
  shows "c_promise (runRsyncCommandWithOutput args True (ds @ CancelRequested # rest))
           = Some (Rejected (js ''Operation cancelled''))
         \<and> Kill \<in> set (c_effects (runRsyncCommandWithOutput args True (ds @ CancelRequested # rest)))"
proof -
  let ?s0 = "\<lparr>c_stdout = [], c_stderr = [], c_promise = None, c_effects = [Spawn Capture args]\<rparr>"
  let ?s1 = "capture_on True (foldl (capture_on True) ?s0 ds) CancelRequested"
  have p: "c_promise ?s1 = Some (Rejected (js ''Operation cancelled''))"
    using assms by (simp add: capture_data)
  have "Kill \<in> set (c_effects ?s1)"
    using assms by (simp add: capture_data)
  with capture_effects_grow [of ?s1 True rest]
  have "Kill \<in> set (c_effects (foldl (capture_on True) ?s1 rest))"
    by blast
  with capture_settled_stays [OF p, of True rest] show ?thesis
    by (simp add: runRsyncCommandWithOutput_def)
qed

text \<open>
  Claim C6 holds for the capture-only run (\<open>capture_cancel_supersedes\<close>) and fails for
  the live run. There the cancellation handler logs and kills but leaves the promise
  pending; the \<^verbatim>\<open>close\<close> event of the killed process (exit code \<^verbatim>\<open>null\<close>) then
  rejects it as a failure, and an exit code 0 that still arrives resolves it as a success.
\<close>

theorem live_cancel_not_cancelled:
  "l_promise (runRsyncCommand args operationName True [CancelRequested]) = None
   \<and> l_promise (runRsyncCommand args operationName True [CancelRequested, Close None])
       = Some (Rejected (operationName @ js '' failed with code null''))
   \<and> l_effects (runRsyncCommand args operationName True [CancelRequested, Close None])
       = [AppendLine (js ''Running: rsync '' @ js_join args (js '' '')),
          AppendLine [],
          Spawn Live args,
          AppendLine [],
          AppendLine ([0x2716] @ js '' '' @ operationName @ js '' cancelled by user.''),
          Kill,
          AppendLine [],
          AppendLine ([0x2716] @ js '' '' @ operationName @ js '' failed with code null.''),
          ShowErrorMessage (operationName @ js '' failed.'')]
   \<and> l_promise (runRsyncCommand args operationName True [CancelRequested, Close (Some 0)])
       = Some (Resolved ())
   \<and> c_promise (runRsyncCommandWithOutput args True [CancelRequested, Close None])
       = Some (Rejected (js ''Operation cancelled''))"
  by (simp add: runRsyncCommand_def runRsyncCommandWithOutput_def show_code_def js_def)

text \<open>
  Claim C7, as stated, fails. The live run never accumulates the error stream: with
  \<^verbatim>\<open>boom\<close> on it and exit code 1 the message is the synthesized one. The capture-only
  run synthesizes \<^verbatim>\<open>rsync exited with code N\<close>, not
  \<^verbatim>\<open><operation> failed with code N\<close>.
\<close>

theorem failure_detail_counterexample:
  "l_promise (runRsyncCommand [js ''-avzP''] (js ''Full sync'') False
                [StderrData (js ''boom''), Close (Some 1)])
     = Some (Rejected (js ''Full sync failed with code 1''))
   \<and> js ''Full sync failed with code 1'' \<noteq> js ''boom''
   \<and> c_promise (runRsyncCommandWithOutput [js ''-avzP''] False [Close (Some 23)])
       = Some (Rejected (js ''rsync exited with code 23''))"
  by (simp add: runRsyncCommand_def runRsyncCommandWithOutput_def show_code_def
      show_nat.simps js_def)

text \<open>
  Claim C7, amended. When the process closes before any cancellation or spawn error,
  exit code 0 resolves the promise (with the accumulated output in the capture-only run)
  and every other exit code rejects it; later events do not change the outcome. The
  capture-only run shows nothing of the two streams, and its message is the accumulated
  error stream, or \<^verbatim>\<open>rsync exited with code N\<close> when that is empty. The live run appends
  every piece of both streams to the output channel in the order of arrival, and its
  message is always \<^verbatim>\<open><operation> failed with code N\<close>.
\<close>

theorem exit_code_outcomes:
  assumes "list_all is_data ds"
  shows "c_promise (runRsyncCommandWithOutput args tok (ds @ Close code # rest))
           = Some (if code = Some 0 then Resolved (stdout_of ds)
                   else Rejected (if stderr_of ds \<noteq> [] then stderr_of ds
                                  else js ''rsync exited with code '' @ show_code code))
         \<and> l_promise (runRsyncCommand args operationName tok (ds @ Close code # rest))
           = Some (if code = Some 0 then Resolved ()
                   else Rejected (operationName @ js '' failed with code '' @ show_code code))
         \<and> c_effects (runRsyncCommandWithOutput args tok (ds @ [Close code]))
           = [Spawn Capture args]
         \<and> l_effects (runRsyncCommand args operationName tok (ds @ [Close code]))
           = [AppendLine (js ''Running: rsync '' @ js_join args (js '' '')),
              AppendLine [],
              Spawn Live args]
             @ streamed ds
             @ (if code = Some 0
                then [AppendLine [],
                      AppendLine ([0x2714] @ js '' '' @ operationName
                                  @ js '' completed successfully.''),
                      SetStatusBarMessage (operationName @ js '' completed successfully.'') 5000]
                else [AppendLine [],
                      AppendLine ([0x2716] @ js '' '' @ operationName
                                  @ js '' failed with code '' @ show_code code @ js ''.''),
                      ShowErrorMessage (operationName @ js '' failed.'')])"
proof -
  let ?c0 = "\<lparr>c_stdout = [], c_stderr = [], c_promise = None,
              c_effects = [Spawn Capture args]\<rparr>"
  let ?c1 = "capture_on tok (foldl (capture_on tok) ?c0 ds) (Close code)"
  have "c_promise ?c1 = Some (if code = Some 0 then Resolved (stdout_of ds)
                   else Rejected (if stderr_of ds \<noteq> [] then stderr_of ds
                                  else js ''rsync exited with code '' @ show_code code))"
    using assms by (simp add: capture_data)
  then have cap: "c_promise (foldl (capture_on tok) ?c1 rest)
       = Some (if code = Some 0 then Resolved (stdout_of ds)
                   else Rejected (if stderr_of ds \<noteq> [] then stderr_of ds
                                  else js ''rsync exited with code '' @ show_code code))"
    by (rule capture_settled_stays)
  have cap_eff: "c_effects ?c1 = [Spawn Capture args]"
    using assms by (simp add: capture_data)
  let ?l0 = "\<lparr>l_promise = None,
        l_effects = [AppendLine (js ''Running: rsync '' @ js_join args (js '' '')),
                     AppendLine [], Spawn Live args]\<rparr>"
  let ?l1 = "live_on tok operationName (foldl (live_on tok operationName) ?l0 ds) (Close code)"
  have "l_promise (foldl (live_on tok operationName) ?l0 ds) = None"
    using assms by (simp add: live_data_promise)
  then have "l_promise ?l1 = Some (if code = Some 0 then Resolved ()
                   else Rejected (operationName @ js '' failed with code '' @ show_code code))"
    by simp
  then have live: "l_promise (foldl (live_on tok operationName) ?l1 rest)
       = Some (if code = Some 0 then Resolved ()
                   else Rejected (operationName @ js '' failed with code '' @ show_code code))"
    by (rule live_settled_stays)
  have live_eff: "l_effects ?l1
      = [AppendLine (js ''Running: rsync '' @ js_join args (js '' '')),
         AppendLine [],
         Spawn Live args]
        @ streamed ds
        @ (if code = Some 0
           then [AppendLine [],
                 AppendLine ([0x2714] @ js '' '' @ operationName
                             @ js '' completed successfully.''),
                 SetStatusBarMessage (operationName @ js '' completed successfully.'') 5000]
           else [AppendLine [],
                 AppendLine ([0x2716] @ js '' '' @ operationName
                             @ js '' failed with code '' @ show_code code @ js ''.''),
                 ShowErrorMessage (operationName @ js '' failed.'')])"
    using assms by (simp add: live_data_effects)
  from cap live cap_eff live_eff show ?thesis
    by (simp add: runRsyncCommandWithOutput_def runRsyncCommand_def)
qed

theorem exit_code_outcomes_witness:
  "c_promise (runRsyncCommandWithOutput [js ''-avzP''] True
       [StdoutData (js ''deleting a''), StderrData (js ''ssh: connect refused''), Close (Some 255)])
     = Some (Rejected (js ''ssh: connect refused''))
   \<and> c_promise (runRsyncCommandWithOutput [js ''-avzP''] True
       [StdoutData (js ''deleting a''), Close (Some 0)])
     = Some (Resolved (js ''deleting a''))
   \<and> l_promise (runRsyncCommand [js ''-avzP''] (js ''Safe sync'') True
       [StdoutData (js ''deleting a''), StderrData (js ''ssh: connect refused''), Close (Some 255)])
     = Some (Rejected (js ''Safe sync failed with code 255''))
   \<and> c_effects (runRsyncCommandWithOutput [js ''-avzP''] True
       [StdoutData (js ''deleting a''), StderrData (js ''ssh: connect refused''), Close (Some 255)])
     = [Spawn Capture [js ''-avzP'']]
   \<and> l_effects (runRsyncCommand [js ''-avzP''] (js ''Safe sync'') True
       [StdoutData (js ''deleting a''), StderrData (js ''ssh: connect refused''), Close (Some 255)])
     = [AppendLine (js ''Running: rsync -avzP''),
        AppendLine [],
        Spawn Live [js ''-avzP''],
        Append (js ''deleting a''),
        Append (js ''ssh: connect refused''),
        AppendLine [],
        AppendLine ([0x2716] @ js '' Safe sync failed with code 255.''),
        ShowErrorMessage (js ''Safe sync failed.'')]"
proof -
  have a: "list_all is_data
      [StdoutData (js ''deleting a''), StderrData (js ''ssh: connect refused'')]"
    by simp
  have b: "list_all is_data [StdoutData (js ''deleting a'')]"
    by simp
  have n: "js ''ssh: connect refused'' \<noteq> []" by (simp add: js_def)
  have s: "show_code (Some 255) = js ''255''"
    by (simp add: show_code_def show_nat.simps js_def)
  from exit_code_outcomes [OF a, of "[js ''-avzP'']" True "Some 255" "[]" "js ''Safe sync''"]
       exit_code_outcomes [OF b, of "[js ''-avzP'']" True "Some 0" "[]" "js ''Safe sync''"] n s
  show ?thesis by (simp add: js_def js_join_def)
qed

section \<open>Properties of the mirror flow\<close>





lemmas eval_defs = runFullSync_def real_step_def second_check_def trial_deletions_def
  runRsyncCommandWithOutput_def runRsyncCommand_def
  parseDeletedFiles_filter js_def js_split_def LF_def js_trim_def
  isWhiteSpace_def js_startsWith_def is_deletion_line_def deleting_def
  w_confirmed_def example_mapping_def example_host_def w_declined_def w_clean_def
  w_exit23_def w_enoent_def w_cancelled_in_dialog_def

text \<open>
  The second cancellation check at work: the user confirms, the token was cancelled
  meanwhile, and the flow resolves with the trial run as its only spawn.
\<close>

lemma cancelled_in_dialog_example:
  "fst (runFullSync 0x2F example_host example_mapping w_cancelled_in_dialog)
     = Some (Resolved ())
   \<and> filter is_spawn (snd (runFullSync 0x2F example_host example_mapping w_cancelled_in_dialog))
       = [Spawn Capture (dryRunArgs 0x2F example_host example_mapping)]"
  by (simp add: eval_defs deletion_notice_def full_banner_def)



text \<open>
  Claim C3. With a non-empty deletion list and any answer other than \<^verbatim>\<open>Yes, delete\<close>
  the confirmation has been requested, the flow resolves after announcing the
  cancellation, and its only spawn is the trial run. With an empty deletion list no
  confirmation is requested and the flow goes on to the real run: the spawns are the trial
  run and then the real run, only the line that no file needs to be deleted lies between
  the two runs, and the outcome of the flow is the outcome of the real run.
\<close>

theorem mirror_confirmation_outcomes:
  assumes "trial_deletions sep host m w = Some fs"
  shows "(fs \<noteq> [] \<and> confirm_answer w \<noteq> Some (js ''Yes, delete'') \<longrightarrow>
            fst (runFullSync sep host m w) = Some (Resolved ())
            \<and> filter is_spawn (snd (runFullSync sep host m w))
                = [Spawn Capture (dryRunArgs sep host m)]
            \<and> list_ex is_confirmation (snd (runFullSync sep host m w))
            \<and> (\<exists>log. snd (runFullSync sep host m w)
                  = log @ [AppendLine (js ''Operation cancelled.''),
                           ShowInformationMessage (js ''Full sync cancelled.'')]))
         \<and> (fs = [] \<longrightarrow>
              \<not> list_ex is_confirmation (snd (runFullSync sep host m w))
              \<and> filter is_spawn (snd (runFullSync sep host m w))
                  = [Spawn Capture (dryRunArgs sep host m), Spawn Live (syncArgs sep host m)]
              \<and> fst (runFullSync sep host m w)
                  = l_promise (runRsyncCommand (syncArgs sep host m) (js ''Full sync'')
                                 (token_present w) (real_events w))
              \<and> (\<exists>tail. snd (runFullSync sep host m w)
                    = full_banner host m
                      @ c_effects (runRsyncCommandWithOutput (dryRunArgs sep host m)
                                     (token_present w) (trial_events w))
                      @ [AppendLine ([0x2714] @ js '' No files need to be deleted.'')]
                      @ l_effects (runRsyncCommand (syncArgs sep host m) (js ''Full sync'')
                                     (token_present w) (real_events w))
                      @ tail))"
proof -
  let ?trial = "runRsyncCommandWithOutput (dryRunArgs sep host m) (token_present w)
                  (trial_events w)"
  let ?real = "runRsyncCommand (syncArgs sep host m) (js ''Full sync'')
                 (token_present w) (real_events w)"
  let ?log = "full_banner host m @ c_effects ?trial"
  from assms have entry: "\<not> (token_present w \<and> cancelled_at_entry w)"
    by (auto simp add: trial_deletions_def split: if_splits)
  from assms entry obtain out where out: "c_promise ?trial = Some (Resolved out)"
    and fs: "fs = parseDeletedFiles out"
    by (auto simp add: trial_deletions_def split: option.splits settled.splits)
  have declined: "fst (runFullSync sep host m w) = Some (Resolved ())
            \<and> filter is_spawn (snd (runFullSync sep host m w))
                = [Spawn Capture (dryRunArgs sep host m)]
            \<and> list_ex is_confirmation (snd (runFullSync sep host m w))
            \<and> (\<exists>log. snd (runFullSync sep host m w)
                  = log @ [AppendLine (js ''Operation cancelled.''),
                           ShowInformationMessage (js ''Full sync cancelled.'')])"
    if "fs \<noteq> []" "confirm_answer w \<noteq> Some (js ''Yes, delete'')"
  proof -
    from entry out fs that
    have r: "runFullSync sep host m w
        = (Some (Resolved ()), (?log @ deletion_notice fs)
             @ [AppendLine (js ''Operation cancelled.''),
                ShowInformationMessage (js ''Full sync cancelled.'')])"
      by (auto simp add: runFullSync_def Let_def)
    have "list_ex is_confirmation (deletion_notice fs)"
      by (simp add: deletion_notice_def)
    with r show ?thesis
      by (auto simp add: capture_spawns)
  qed
  have empty: "\<not> list_ex is_confirmation (snd (runFullSync sep host m w))
              \<and> filter is_spawn (snd (runFullSync sep host m w))
                  = [Spawn Capture (dryRunArgs sep host m), Spawn Live (syncArgs sep host m)]
              \<and> fst (runFullSync sep host m w) = l_promise ?real
              \<and> (\<exists>tail. snd (runFullSync sep host m w)
                    = full_banner host m @ c_effects ?trial
                      @ [AppendLine ([0x2714] @ js '' No files need to be deleted.'')]
                      @ l_effects ?real @ tail)"
    if "fs = []"
  proof -
    let ?log' = "?log @ [AppendLine ([0x2714] @ js '' No files need to be deleted.'')]"
    from entry out fs that
    have r: "runFullSync sep host m w = real_step sep host m w False ?log'"
      by (auto simp add: runFullSync_def Let_def)
    have go: "\<not> second_check w False" by simp
    from real_step_runs [OF go, of sep host m ?log'] obtain tail where
      tail: "snd (real_step sep host m w False ?log') = ?log' @ l_effects ?real @ tail"
      and quiet: "filter is_confirmation tail = []" "filter is_spawn tail = []"
      by blast
    from r tail quiet have "\<not> list_ex is_confirmation (snd (runFullSync sep host m w))"
      and "filter is_spawn (snd (runFullSync sep host m w))
             = [Spawn Capture (dryRunArgs sep host m), Spawn Live (syncArgs sep host m)]"
      by (simp_all add: capture_spawns capture_no_confirmation live_spawns
          live_no_confirmation not_list_ex_filter)
    moreover from r real_step_outcome [OF go, of sep host m ?log']
    have "fst (runFullSync sep host m w) = l_promise ?real" by simp
    moreover from r tail have "\<exists>tail. snd (runFullSync sep host m w)
        = full_banner host m @ c_effects ?trial
          @ [AppendLine ([0x2714] @ js '' No files need to be deleted.'')]
          @ l_effects ?real @ tail"
      by simp
    ultimately show ?thesis by blast
  qed
  from declined empty show ?thesis by blast
qed

theorem mirror_confirmation_outcomes_witness:
  "trial_deletions 0x2F example_host example_mapping w_declined = Some [js ''old/file.txt'']
   \<and> fst (runFullSync 0x2F example_host example_mapping w_declined) = Some (Resolved ())
   \<and> filter is_spawn (snd (runFullSync 0x2F example_host example_mapping w_declined))
       = [Spawn Capture (dryRunArgs 0x2F example_host example_mapping)]
   \<and> list_ex is_confirmation (snd (runFullSync 0x2F example_host example_mapping w_declined))
   \<and> trial_deletions 0x2F example_host example_mapping w_clean = Some []
   \<and> filter is_spawn (snd (runFullSync 0x2F example_host example_mapping w_clean))
       = [Spawn Capture (dryRunArgs 0x2F example_host example_mapping),
          Spawn Live (syncArgs 0x2F example_host example_mapping)]
   \<and> fst (runFullSync 0x2F example_host example_mapping w_clean) = Some (Resolved ())
   \<and> list_ex is_confirmation (snd (runFullSync 0x2F example_host example_mapping w_clean))
       = False"
proof -
  have d: "trial_deletions 0x2F example_host example_mapping w_declined
      = Some [js ''old/file.txt'']"
    by (simp add: eval_defs)
  have a: "confirm_answer w_declined \<noteq> Some (js ''Yes, delete'')"
    by (simp add: w_declined_def)
  have e: "trial_deletions 0x2F example_host example_mapping w_clean = Some []"
    by (simp add: eval_defs)
  have ok: "l_promise (runRsyncCommand (syncArgs 0x2F example_host example_mapping)
      (js ''Full sync'') (token_present w_clean) (real_events w_clean)) = Some (Resolved ())"
    by (simp add: runRsyncCommand_def w_clean_def)
  from mirror_confirmation_outcomes [OF d] a mirror_confirmation_outcomes [OF e] d e ok
  show ?thesis by simp
qed

text \<open>
  Claim C5. When the trial run was started and its promise is rejected (a non-zero exit
  code, a spawn failure), the mirror flow rejects with the same error and its only spawn
  is the trial run: no real run, no retry.
\<close>

theorem failed_trial_propagates:
  assumes "\<not> (token_present w \<and> cancelled_at_entry w)"
    and "c_promise (runRsyncCommandWithOutput (dryRunArgs sep host m)
                      (token_present w) (trial_events w)) = Some (Rejected msg)"
  shows "fst (runFullSync sep host m w) = Some (Rejected msg)
         \<and> filter is_spawn (snd (runFullSync sep host m w))
             = [Spawn Capture (dryRunArgs sep host m)]"
  using assms by (auto simp add: runFullSync_def Let_def capture_spawns)

theorem failed_trial_propagates_witness:
  "fst (runFullSync 0x2F example_host example_mapping w_exit23)
     = Some (Rejected (js ''rsync error: some files could not be transferred''))
   \<and> filter is_spawn (snd (runFullSync 0x2F example_host example_mapping w_exit23))
       = [Spawn Capture (dryRunArgs 0x2F example_host example_mapping)]
   \<and> fst (runFullSync 0x2F example_host example_mapping w_enoent) = Some (Rejected (js ''spawn rsync ENOENT''))
   \<and> filter is_spawn (snd (runFullSync 0x2F example_host example_mapping w_enoent))
       = [Spawn Capture (dryRunArgs 0x2F example_host example_mapping)]"
proof -
  have a: "\<not> (token_present w_exit23 \<and> cancelled_at_entry w_exit23)"
    by (simp add: w_exit23_def w_clean_def)
  have b: "c_promise (runRsyncCommandWithOutput (dryRunArgs 0x2F example_host example_mapping)
                      (token_present w_exit23) (trial_events w_exit23))
             = Some (Rejected (js ''rsync error: some files could not be transferred''))"
    by (simp add: runRsyncCommandWithOutput_def w_exit23_def w_clean_def js_def)
  have a': "\<not> (token_present w_enoent \<and> cancelled_at_entry w_enoent)"
    by (simp add: w_enoent_def w_clean_def)
  have b': "c_promise (runRsyncCommandWithOutput (dryRunArgs 0x2F example_host example_mapping)
                      (token_present w_enoent) (trial_events w_enoent))
             = Some (Rejected (js ''spawn rsync ENOENT''))"
    by (simp add: runRsyncCommandWithOutput_def w_enoent_def w_clean_def)
  from failed_trial_propagates [OF a b] failed_trial_propagates [OF a' b'] show ?thesis by simp
qed



end
